theory Spec2Isabelle
  imports Main "HOL-Library.Word" "HOL-Library.Sublist"
begin

section \<open>The HDFS storage driver of the registry\<close>

text \<open>
  A shallow embedding of \<^verbatim>\<open>registry/storage/driver/hdfs/driver.go\<close>. Every function of
  the driver is a HOL function of the same name. What the Go code does besides returning
  a value is explicit: the remote file system is a state that every call to the client
  takes and returns, \<^verbatim>\<open>log.Print\<close> appends to a log, a nil-pointer dereference or a failed
  type assertion is the outcome \<open>Panic\<close>, and \<^verbatim>\<open>log.Fatal\<close> is the outcome \<open>Exit\<close>.
\<close>

subsection \<open>Machine integers, bytes, errors and outcomes\<close>

type_synonym byte = "8 word"
type_synonym int64 = "64 word"

text \<open>Go's \<^verbatim>\<open>int\<close> on the 64-bit platform the registry image is built for.\<close>

type_synonym goint = "64 word"

text \<open>
  The values of Go's \<^verbatim>\<open>error\<close> interface that occur: the three typed errors of the
  storage driver contract, and whatever error the remote client returns (opaque to the
  driver, which only tests it against nil).
\<close>

datatype error =
    PathNotFoundError string
  | InvalidOffsetError string int64
  | ErrUnsupportedMethod
  | RemoteError string

text \<open>
  How a call ends: it returns to its caller, it panics (a nil dereference, a failed
  single-value type assertion), or the process exits (\<^verbatim>\<open>log.Fatal\<close>).
\<close>

datatype 'a outcome = Return 'a | Panic | Exit

fun returned_error :: "('a \<times> error option) outcome \<Rightarrow> error option" where
  "returned_error (Return (_, e)) = e"
| "returned_error Panic = None"
| "returned_error Exit = None"

fun returns :: "'a outcome \<Rightarrow> bool" where
  "returns (Return _) = True"
| "returns Panic = False"
| "returns Exit = False"

subsection \<open>Go's standard library: \<^verbatim>\<open>strings.HasPrefix\<close> and package \<^verbatim>\<open>path\<close>\<close>

text \<open>
  These functions belong to Go's standard library, not to the repository. They are
  modelled after their documented behaviour so that the driver's path handling can be
  evaluated. \<^verbatim>\<open>strings.HasPrefix(s, prefix)\<close> is
  \<^verbatim>\<open>len(s) >= len(prefix) && s[0:len(prefix)] == prefix\<close>.
\<close>

definition HasPrefix :: "string \<Rightarrow> string \<Rightarrow> bool" where
  "HasPrefix s pre = (length pre \<le> length s \<and> take (length pre) s = pre)"

text \<open>The elements of a path between its slashes (empty elements included).\<close>

fun splitSlash :: "string \<Rightarrow> string list" where
  "splitSlash [] = [[]]"
| "splitSlash (c # cs) =
     (if c = CHR ''/'' then [] # splitSlash cs
      else (case splitSlash cs of [] \<Rightarrow> [[c]] | x # xs \<Rightarrow> (c # x) # xs))"

text \<open>\<^verbatim>\<open>strings.Join(elems, "/")\<close>.\<close>

fun joinSlash :: "string list \<Rightarrow> string" where
  "joinSlash [] = []"
| "joinSlash [x] = x"
| "joinSlash (x # y # ys) = x @ ''/'' @ joinSlash (y # ys)"

text \<open>
  One element of \<^verbatim>\<open>path.Clean\<close>, on the elements kept so far (last one first): an empty
  element and \<^verbatim>\<open>.\<close> are dropped; \<^verbatim>\<open>..\<close> removes the element before it, is dropped
  at the start of a rooted path, and is kept at the start of a relative one.
\<close>

fun cleanStep :: "bool \<Rightarrow> string \<Rightarrow> string list \<Rightarrow> string list" where
  "cleanStep rooted el kept =
     (if el = [] \<or> el = ''.'' then kept
      else if el = ''..'' then
        (case kept of
           [] \<Rightarrow> (if rooted then [] else [''..''])
         | k # ks \<Rightarrow> (if k = ''..'' then ''..'' # k # ks else ks))
      else el # kept)"

definition Clean :: "string \<Rightarrow> string" where
  "Clean p =
     (if p = [] then ''.''
      else
        (let rooted = (hd p = CHR ''/'');
             body = joinSlash (rev (fold (cleanStep rooted) (splitSlash p) []))
         in if rooted then CHR ''/'' # body
            else if body = [] then ''.'' else body))"

text \<open>
  \<^verbatim>\<open>path.Join\<close>: the elements from the first non-empty one on, joined with slashes and
  cleaned; the empty string when every element is empty.
\<close>

fun Join :: "string list \<Rightarrow> string" where
  "Join [] = []"
| "Join (e # es) = (if e \<noteq> [] then Clean (joinSlash (e # es)) else Join es)"

text \<open>\<^verbatim>\<open>path.Dir\<close>: everything up to the last slash, cleaned.\<close>

definition Dir :: "string \<Rightarrow> string" where
  "Dir p = Clean (rev (dropWhile (\<lambda>c. c \<noteq> CHR ''/'') (rev p)))"

subsection \<open>The remote client\<close>

text \<open>
  The client library \<^verbatim>\<open>github.com/colinmarc/hdfs\<close> is not part of the repository. The
  driver is modelled over any client: a record of the operations the driver calls, each a
  function of the remote state \<open>'s\<close>. \<open>'r\<close> is an open \<^verbatim>\<open>*hdfs.FileReader\<close>, \<open>'w\<close> an open
  \<^verbatim>\<open>*hdfs.FileWriter\<close>. An operation that fails returns its error and, as Go functions
  do, a nil handle (\<open>Inl\<close>).
\<close>

record FileInfo =
  fi_Name :: string
  fi_Size :: int64
  fi_ModTime :: nat
  fi_IsDir :: bool

record ('s, 'r, 'w) hdfs_client =
  cl_ReadFile :: "string \<Rightarrow> 's \<Rightarrow> (error + byte list) \<times> 's"
  cl_Open :: "string \<Rightarrow> 's \<Rightarrow> (error + 'r) \<times> 's"
  cl_Create :: "string \<Rightarrow> 's \<Rightarrow> (error + 'w) \<times> 's"
  cl_Append :: "string \<Rightarrow> 's \<Rightarrow> (error + 'w) \<times> 's"
  cl_Remove :: "string \<Rightarrow> 's \<Rightarrow> error option \<times> 's"
  cl_Rename :: "string \<Rightarrow> string \<Rightarrow> 's \<Rightarrow> error option \<times> 's"
  cl_Stat :: "string \<Rightarrow> 's \<Rightarrow> (error + FileInfo) \<times> 's"
  cl_ReadDir :: "string \<Rightarrow> 's \<Rightarrow> (error + FileInfo list) \<times> 's"
  cl_MkdirAll :: "string \<Rightarrow> 32 word \<Rightarrow> 's \<Rightarrow> error option \<times> 's"
  rd_Seek :: "'r \<Rightarrow> int64 \<Rightarrow> 's \<Rightarrow> ('r \<times> int64 \<times> error option) \<times> 's"
  rd_Close :: "'r \<Rightarrow> 's \<Rightarrow> error option \<times> 's"
  rd_Size :: "'r \<Rightarrow> int64"
  wr_Write :: "'w \<Rightarrow> byte list \<Rightarrow> 's \<Rightarrow> (nat \<times> error option) \<times> 's"
  wr_Close :: "'w \<Rightarrow> 's \<Rightarrow> error option \<times> 's"

text \<open>The world a driver call runs in: the remote state and what has been logged.\<close>

record 's world =
  remote :: 's
  logged :: "error list"

definition log_Print :: "error \<Rightarrow> 's world \<Rightarrow> 's world" where
  "log_Print e wd = wd\<lparr>logged := logged wd @ [e]\<rparr>"

text \<open>\<^verbatim>\<open>if err != nil { log.Print(err) }\<close>\<close>

definition log_if :: "error option \<Rightarrow> 's world \<Rightarrow> 's world" where
  "log_if eo wd = (case eo of None \<Rightarrow> wd | Some e \<Rightarrow> log_Print e wd)"

text \<open>A handle as Go has it after \<^verbatim>\<open>h, _ := ...\<close>: nil when the call failed.\<close>

definition handle :: "error + 'h \<Rightarrow> 'h option" where
  "handle r = (case r of Inl _ \<Rightarrow> None | Inr h \<Rightarrow> Some h)"

subsection \<open>The driver\<close>

record ('s, 'r, 'w) driver =
  hdfsRootDirectory :: string
  hdfsNameNode :: string
  hdfsUser :: string
  directoryUmask :: goint
  hdfsClient :: "('s, 'r, 'w) hdfs_client"

definition fullPath :: "('s, 'r, 'w) driver \<Rightarrow> string \<Rightarrow> string" where
  "fullPath d subPath =
     (if HasPrefix subPath (hdfsRootDirectory d) then subPath
      else Join [hdfsRootDirectory d, subPath])"

definition makeParentDir ::
  "('s, 'r, 'w) driver \<Rightarrow> string \<Rightarrow> 's world \<Rightarrow> error option \<times> 's world" where
  "makeParentDir d subPath wd =
     (case cl_MkdirAll (hdfsClient d) (Dir (fullPath d subPath)) (ucast (directoryUmask d))
             (remote wd) of
        (Some err, s) \<Rightarrow> (Some err, wd\<lparr>remote := s\<rparr>)
      | (None, s) \<Rightarrow> (None, wd\<lparr>remote := s\<rparr>))"

text \<open>The display name.\<close>

definition Name :: "('s, 'r, 'w) driver \<Rightarrow> string" where
  "Name d = ''HDFS Storage Driver''"

definition GetContent ::
  "('s, 'r, 'w) driver \<Rightarrow> string \<Rightarrow> 's world \<Rightarrow> (byte list option \<times> error option) \<times> 's world" where
  "GetContent d path wd =
     (case cl_ReadFile (hdfsClient d) (fullPath d path) (remote wd) of
        (Inl err, s) \<Rightarrow> ((None, Some (PathNotFoundError (fullPath d path))), wd\<lparr>remote := s\<rparr>)
      | (Inr p, s) \<Rightarrow> ((Some p, None), wd\<lparr>remote := s\<rparr>))"

subsection \<open>The writer session\<close>

text \<open>
  \<^verbatim>\<open>fileWriter\<close>: \<open>hdfsWriter\<close> is a pointer and may be nil. The methods have a pointer
  receiver and change the struct; here they return it. The remote handle's own methods
  are those of the client, which the methods therefore take as their first argument.
\<close>

record 'w fileWriter =
  hdfsWriter :: "'w option"
  filePath :: string
  isClosed :: bool
  writeSize :: int64
  startingFileSize :: int64

definition newFileWriter :: "'w option \<Rightarrow> string \<Rightarrow> int64 \<Rightarrow> 'w fileWriter" where
  "newFileWriter h path start =
     \<lparr>hdfsWriter = h, filePath = path, isClosed = False, writeSize = 0,
      startingFileSize = start\<rparr>"

text \<open>\<^verbatim>\<open>Size\<close>: the comparison \<^verbatim>\<open>w.startingFileSize > 0\<close> is a signed one.\<close>

definition Size :: "'w fileWriter \<Rightarrow> int64 \<times> 'w fileWriter" where
  "Size w =
     (if 0 <s startingFileSize w
      then (writeSize w + startingFileSize w,
            w\<lparr>writeSize := writeSize w + startingFileSize w, startingFileSize := 0\<rparr>)
      else (writeSize w, w))"

text \<open>
  \<^verbatim>\<open>Write\<close>: \<^verbatim>\<open>w.hdfsWriter.Write(p)\<close> on a nil \<^verbatim>\<open>*hdfs.FileWriter\<close> dereferences nil and
  panics. Otherwise the remote write's count is dropped, its error is logged and dropped,
  and the result is \<^verbatim>\<open>len(p), nil\<close>. \<^verbatim>\<open>int64(len(p))\<close> is \<open>of_nat (length p)\<close>.
\<close>

definition Write ::
  "('s, 'r, 'w) hdfs_client \<Rightarrow> 'w fileWriter \<Rightarrow> byte list \<Rightarrow> 's world
     \<Rightarrow> (nat \<times> error option) outcome \<times> 'w fileWriter \<times> 's world" where
  "Write c w p wd =
     (let w1 = snd (Size w) in
      case hdfsWriter w1 of
        None \<Rightarrow> (Panic, w1, wd)
      | Some h \<Rightarrow>
          (case wr_Write c h p (remote wd) of
             ((n, err), s) \<Rightarrow>
               (Return (length p, None),
                w1\<lparr>isClosed := False, writeSize := writeSize w1 + of_nat (length p)\<rparr>,
                log_if err (wd\<lparr>remote := s\<rparr>))))"

definition Close ::
  "('s, 'r, 'w) hdfs_client \<Rightarrow> 'w fileWriter \<Rightarrow> 's world
     \<Rightarrow> error option \<times> 'w fileWriter \<times> 's world" where
  "Close c w wd =
     (let w1 = snd (Size w) in
      case hdfsWriter w1 of
        None \<Rightarrow> (None, w1, wd)
      | Some h \<Rightarrow>
          if \<not> isClosed w1 then
            (case wr_Close c h (remote wd) of
               (err, s) \<Rightarrow> (None, w1\<lparr>isClosed := True\<rparr>, log_if err (wd\<lparr>remote := s\<rparr>)))
          else (None, w1, wd))"

definition Cancel :: "'w fileWriter \<Rightarrow> error option" where
  "Cancel w = None"

definition Commit :: "'w fileWriter \<Rightarrow> error option" where
  "Commit w = None"

subsection \<open>Opening sessions\<close>

text \<open>
  \<^verbatim>\<open>Writer\<close>: the result of \<^verbatim>\<open>makeParentDir\<close> and the errors of \<^verbatim>\<open>Remove\<close>,
  \<^verbatim>\<open>Create\<close> and \<^verbatim>\<open>Append\<close> are dropped. The returned interface value is never nil and
  the returned error always is.
\<close>

definition Writer ::
  "('s, 'r, 'w) driver \<Rightarrow> string \<Rightarrow> bool \<Rightarrow> 's world
     \<Rightarrow> ('w fileWriter option \<times> error option) \<times> 's world" where
  "Writer d path append_flag wd =
     (let c = hdfsClient d;
          fp = fullPath d path;
          wd1 = snd (makeParentDir d fp wd)
      in case cl_Open c fp (remote wd1) of
           (Inl err, s2) \<Rightarrow>
             (case cl_Create c fp s2 of
                (hw, s3) \<Rightarrow>
                  ((Some (newFileWriter (handle hw) fp 0), None), wd1\<lparr>remote := s3\<rparr>))
         | (Inr reader, s2) \<Rightarrow>
             if \<not> append_flag then
               (case cl_Remove c fp s2 of
                  (_, s3) \<Rightarrow>
                    (case cl_Create c fp s3 of
                       (hw, s4) \<Rightarrow>
                         ((Some (newFileWriter (handle hw) fp 0), None), wd1\<lparr>remote := s4\<rparr>)))
             else
               (case cl_Append c fp s2 of
                  (hw, s3) \<Rightarrow>
                    ((Some (newFileWriter (handle hw) fp (rd_Size c reader)), None),
                     wd1\<lparr>remote := s3\<rparr>)))"

text \<open>
  \<^verbatim>\<open>PutContent\<close>: a nil \<^verbatim>\<open>writer\<close> interface would panic at \<^verbatim>\<open>writer.Write\<close>. The error
  returned is the one of \<^verbatim>\<open>Write\<close>.
\<close>

definition PutContent ::
  "('s, 'r, 'w) driver \<Rightarrow> string \<Rightarrow> byte list \<Rightarrow> 's world \<Rightarrow> error option outcome \<times> 's world" where
  "PutContent d path contents wd =
     (let fp = fullPath d path;
          wd1 = snd (makeParentDir d fp wd)
      in case Writer d fp False wd1 of
           ((writer, err), wd2) \<Rightarrow>
             (let wd3 = log_if err wd2 in
              case writer of
                None \<Rightarrow> (Panic, wd3)
              | Some w \<Rightarrow>
                  (case Write (hdfsClient d) w contents wd3 of
                     (Return (n, err'), w', wd4) \<Rightarrow>
                       (case Close (hdfsClient d) w' (log_if err' wd4) of
                          (_, w'', wd5) \<Rightarrow> (Return err', wd5))
                   | (Panic, w', wd4) \<Rightarrow> (Panic, wd4)
                   | (Exit, w', wd4) \<Rightarrow> (Exit, wd4))))"

text \<open>
  \<^verbatim>\<open>Reader\<close>: when \<^verbatim>\<open>Open\<close> fails the error is logged and execution goes on with a nil
  \<^verbatim>\<open>reader\<close>, whose \<^verbatim>\<open>Seek\<close> dereferences nil. \<^verbatim>\<open>seekPos < int64(offset)\<close> is signed.
\<close>

definition Reader ::
  "('s, 'r, 'w) driver \<Rightarrow> string \<Rightarrow> int64 \<Rightarrow> 's world
     \<Rightarrow> ('r option \<times> error option) outcome \<times> 's world" where
  "Reader d path offset wd =
     (let c = hdfsClient d;
          fp = fullPath d path
      in case cl_Open c fp (remote wd) of
           (Inl err, s1) \<Rightarrow> (Panic, log_Print err (wd\<lparr>remote := s1\<rparr>))
         | (Inr reader, s1) \<Rightarrow>
             (case rd_Seek c reader offset s1 of
                ((reader', seekPos, Some err), s2) \<Rightarrow>
                  (Return (None, Some err), wd\<lparr>remote := snd (rd_Close c reader' s2)\<rparr>)
              | ((reader', seekPos, None), s2) \<Rightarrow>
                  if seekPos <s offset then
                    (Return (None, Some (InvalidOffsetError fp offset)),
                     wd\<lparr>remote := snd (rd_Close c reader' s2)\<rparr>)
                  else (Return (Some reader', None), wd\<lparr>remote := s2\<rparr>)))"

subsection \<open>Metadata, listing, moving, deleting\<close>

record FileInfoFields =
  Path :: string
  Size_f :: int64
  ModTime :: nat
  IsDir :: bool

definition Stat ::
  "('s, 'r, 'w) driver \<Rightarrow> string \<Rightarrow> 's world \<Rightarrow> (FileInfoFields option \<times> error option) \<times> 's world" where
  "Stat d path wd =
     (case cl_Stat (hdfsClient d) (fullPath d path) (remote wd) of
        (Inl err, s) \<Rightarrow> ((None, Some (PathNotFoundError (fullPath d path))), wd\<lparr>remote := s\<rparr>)
      | (Inr fi, s) \<Rightarrow>
          ((Some \<lparr>Path = fullPath d path, Size_f = fi_Size fi, ModTime = fi_ModTime fi,
                  IsDir = fi_IsDir fi\<rparr>, None), wd\<lparr>remote := s\<rparr>))"

definition List ::
  "('s, 'r, 'w) driver \<Rightarrow> string \<Rightarrow> 's world \<Rightarrow> (string list \<times> error option) \<times> 's world" where
  "List d subPath wd =
     (case cl_ReadDir (hdfsClient d) (fullPath d subPath) (remote wd) of
        (Inl err, s) \<Rightarrow> (([], None), wd\<lparr>remote := s\<rparr>)
      | (Inr fileInfos, s) \<Rightarrow>
          ((map (\<lambda>fileInfo. fullPath d subPath @ ''/'' @ fi_Name fileInfo) fileInfos, None),
           wd\<lparr>remote := s\<rparr>))"

definition Move ::
  "('s, 'r, 'w) driver \<Rightarrow> string \<Rightarrow> string \<Rightarrow> 's world \<Rightarrow> error option \<times> 's world" where
  "Move d sourcePath destPath wd =
     (let wd1 = snd (makeParentDir d (fullPath d destPath) wd) in
      case cl_Rename (hdfsClient d) (fullPath d sourcePath) (fullPath d destPath) (remote wd1) of
        (err, s) \<Rightarrow> (err, wd1\<lparr>remote := s\<rparr>))"

definition Delete ::
  "('s, 'r, 'w) driver \<Rightarrow> string \<Rightarrow> 's world \<Rightarrow> error option \<times> 's world" where
  "Delete d path wd =
     (case cl_Remove (hdfsClient d) (fullPath d path) (remote wd) of
        (err, s) \<Rightarrow> (err, wd\<lparr>remote := s\<rparr>))"

text \<open>\<^verbatim>\<open>URLFor\<close> ignores its path and its options.\<close>

definition URLFor :: "('s, 'r, 'w) driver \<Rightarrow> string \<Rightarrow> string \<times> error option" where
  "URLFor d path = ([], Some ErrUnsupportedMethod)"

subsection \<open>Configuration and construction\<close>

text \<open>
  A value of type \<^verbatim>\<open>interface{}\<close> in the parameters map: an \<^verbatim>\<open>int\<close>, a \<^verbatim>\<open>string\<close>, a
  \<^verbatim>\<open>bool\<close>, nil, or a value of any other dynamic type, kept as the text \<^verbatim>\<open>fmt.Sprint\<close>
  gives for it.
\<close>

datatype gvalue = GInt goint | GString string | GBool bool | GNil | GOther string

fun digits :: "nat \<Rightarrow> string" where
  "digits n =
     (if n < 10 then [''0123456789'' ! n]
      else digits (n div 10) @ [''0123456789'' ! (n mod 10)])"

declare digits.simps [simp del]

definition showInt :: "int \<Rightarrow> string" where
  "showInt i = (if i < 0 then CHR ''-'' # digits (nat (- i)) else digits (nat i))"

text \<open>\<^verbatim>\<open>fmt.Sprint\<close> of one operand.\<close>

fun Sprint :: "gvalue \<Rightarrow> string" where
  "Sprint (GInt i) = showInt (sint i)"
| "Sprint (GString s) = s"
| "Sprint (GBool b) = (if b then ''true'' else ''false'')"
| "Sprint GNil = ''<nil>''"
| "Sprint (GOther s) = s"

text \<open>The single-value type assertion \<^verbatim>\<open>dUmask.(int)\<close>: it panics on any other type.\<close>

fun assertInt :: "gvalue \<Rightarrow> goint outcome" where
  "assertInt (GInt i) = Return i"
| "assertInt (GString s) = Panic"
| "assertInt (GBool b) = Panic"
| "assertInt GNil = Panic"
| "assertInt (GOther s) = Panic"

definition defaultHdfsRootDirectory :: string where
  "defaultHdfsRootDirectory = ''/tmp/hdfs-registry''"

definition defaultHdfsNamenode :: string where
  "defaultHdfsNamenode = []"

definition defaultHdfsUser :: string where
  "defaultHdfsUser = ''hdfs''"

text \<open>The Go literal \<^verbatim>\<open>0755\<close> is octal.\<close>

definition defaultDirectoryUmask :: goint where
  "defaultDirectoryUmask = 493"

record driverParameters =
  p_hdfsRootDirectory :: string
  p_hdfsNameNode :: string
  p_hdfsUser :: string
  p_directoryUmask :: goint

text \<open>
  \<^verbatim>\<open>New\<close>: \<open>NewForUser\<close> is \<^verbatim>\<open>hdfs.NewForUser\<close>, the client library's connection to the
  namenode. When it fails, \<^verbatim>\<open>log.Fatal(err)\<close> prints the error and exits the process.
  The \<^verbatim>\<open>base.Base\<close> wrapper around the driver is left out.
\<close>

definition New ::
  "(string \<Rightarrow> string \<Rightarrow> error + ('s, 'r, 'w) hdfs_client) \<Rightarrow> driverParameters \<Rightarrow> 's world
     \<Rightarrow> (('s, 'r, 'w) driver \<times> error option) outcome \<times> 's world" where
  "New NewForUser params wd =
     (case NewForUser (p_hdfsNameNode params) (p_hdfsUser params) of
        Inl err \<Rightarrow> (Exit, log_Print err wd)
      | Inr client \<Rightarrow>
          (Return
             (\<lparr>hdfsRootDirectory = p_hdfsRootDirectory params,
               hdfsNameNode = p_hdfsNameNode params,
               hdfsUser = p_hdfsUser params,
               directoryUmask = p_directoryUmask params,
               hdfsClient = client\<rparr>, None), wd))"

text \<open>\<^verbatim>\<open>FromParameters\<close>: the map may be nil (\<open>None\<close>).\<close>

definition FromParameters ::
  "(string \<Rightarrow> string \<Rightarrow> error + ('s, 'r, 'w) hdfs_client) \<Rightarrow> (string \<rightharpoonup> gvalue) option
     \<Rightarrow> 's world \<Rightarrow> (('s, 'r, 'w) driver \<times> error option) outcome \<times> 's world" where
  "FromParameters NewForUser parameters wd =
     (case parameters of
        None \<Rightarrow>
          New NewForUser
            \<lparr>p_hdfsRootDirectory = defaultHdfsRootDirectory,
             p_hdfsNameNode = defaultHdfsNamenode,
             p_hdfsUser = defaultHdfsUser,
             p_directoryUmask = defaultDirectoryUmask\<rparr> wd
      | Some m \<Rightarrow>
          (let root = (case m ''hdfsrootdirectory'' of
                         Some v \<Rightarrow> Sprint v | None \<Rightarrow> defaultHdfsRootDirectory);
               nameNode = (case m ''hdfsnamenode'' of
                             Some v \<Rightarrow> Sprint v | None \<Rightarrow> defaultHdfsNamenode);
               user = (case m ''hdfsuser'' of
                         Some v \<Rightarrow> Sprint v | None \<Rightarrow> defaultHdfsUser)
           in case (case m ''directoryumask'' of
                      Some v \<Rightarrow> assertInt v | None \<Rightarrow> Return defaultDirectoryUmask) of
                Return umask \<Rightarrow>
                  New NewForUser
                    \<lparr>p_hdfsRootDirectory = root, p_hdfsNameNode = nameNode,
                     p_hdfsUser = user, p_directoryUmask = umask\<rparr> wd
              | Panic \<Rightarrow> (Panic, wd)
              | Exit \<Rightarrow> (Exit, wd)))"

subsection \<open>An in-memory client\<close>

text \<open>
  A small remote file system to run the driver on: a flat table of files, the write
  handles closed so far, and switches that make \<^verbatim>\<open>Create\<close> or the remote \<^verbatim>\<open>Write\<close> fail
  and that let \<^verbatim>\<open>Seek\<close> stop at the end of the file instead of failing beyond it. A
  reader is the path with the size read when it was opened and a position; a write
  handle is the path.
\<close>

record mem_fs =
  files :: "(string \<times> byte list) list"
  closed_handles :: "string list"
  fail_create :: bool
  fail_write :: bool
  short_seek :: bool

record mem_reader =
  mr_path :: string
  mr_size :: int64
  mr_pos :: int64

definition no_such_file :: error where
  "no_such_file = RemoteError ''file does not exist''"

definition mem_ReadFile :: "string \<Rightarrow> mem_fs \<Rightarrow> (error + byte list) \<times> mem_fs" where
  "mem_ReadFile p s =
     (case map_of (files s) p of None \<Rightarrow> (Inl no_such_file, s) | Some bs \<Rightarrow> (Inr bs, s))"

definition mem_Open :: "string \<Rightarrow> mem_fs \<Rightarrow> (error + mem_reader) \<times> mem_fs" where
  "mem_Open p s =
     (case map_of (files s) p of
        None \<Rightarrow> (Inl no_such_file, s)
      | Some bs \<Rightarrow> (Inr \<lparr>mr_path = p, mr_size = of_nat (length bs), mr_pos = 0\<rparr>, s))"

definition mem_Create :: "string \<Rightarrow> mem_fs \<Rightarrow> (error + string) \<times> mem_fs" where
  "mem_Create p s =
     (if fail_create s then (Inl (RemoteError ''create failed''), s)
      else (case map_of (files s) p of
              Some bs \<Rightarrow> (Inl (RemoteError ''file already exists''), s)
            | None \<Rightarrow> (Inr p, s\<lparr>files := (p, []) # files s\<rparr>)))"

definition mem_Append :: "string \<Rightarrow> mem_fs \<Rightarrow> (error + string) \<times> mem_fs" where
  "mem_Append p s =
     (case map_of (files s) p of None \<Rightarrow> (Inl no_such_file, s) | Some bs \<Rightarrow> (Inr p, s))"

definition mem_Remove :: "string \<Rightarrow> mem_fs \<Rightarrow> error option \<times> mem_fs" where
  "mem_Remove p s =
     (case map_of (files s) p of
        None \<Rightarrow> (Some no_such_file, s)
      | Some bs \<Rightarrow> (None, s\<lparr>files := filter (\<lambda>f. fst f \<noteq> p) (files s)\<rparr>))"

definition mem_Rename :: "string \<Rightarrow> string \<Rightarrow> mem_fs \<Rightarrow> error option \<times> mem_fs" where
  "mem_Rename a b s =
     (case map_of (files s) a of
        None \<Rightarrow> (Some no_such_file, s)
      | Some bs \<Rightarrow>
          (None, s\<lparr>files := (b, bs) # filter (\<lambda>f. fst f \<noteq> a \<and> fst f \<noteq> b) (files s)\<rparr>))"

definition base_name :: "string \<Rightarrow> string" where
  "base_name p = rev (takeWhile (\<lambda>c. c \<noteq> CHR ''/'') (rev p))"

definition mem_Stat :: "string \<Rightarrow> mem_fs \<Rightarrow> (error + FileInfo) \<times> mem_fs" where
  "mem_Stat p s =
     (case map_of (files s) p of
        None \<Rightarrow> (Inl no_such_file, s)
      | Some bs \<Rightarrow>
          (Inr \<lparr>fi_Name = base_name p, fi_Size = of_nat (length bs), fi_ModTime = 0,
                fi_IsDir = False\<rparr>, s))"

definition mem_ReadDir :: "string \<Rightarrow> mem_fs \<Rightarrow> (error + FileInfo list) \<times> mem_fs" where
  "mem_ReadDir p s =
     (let infos =
            map (\<lambda>f. \<lparr>fi_Name = base_name (fst f), fi_Size = of_nat (length (snd f)),
                       fi_ModTime = 0, fi_IsDir = False\<rparr>)
              (filter (\<lambda>f. fst f = p @ ''/'' @ base_name (fst f)) (files s))
      in if infos = [] then (Inl no_such_file, s) else (Inr infos, s))"

definition mem_MkdirAll :: "string \<Rightarrow> 32 word \<Rightarrow> mem_fs \<Rightarrow> error option \<times> mem_fs" where
  "mem_MkdirAll p mode s = (None, s)"

definition mem_Seek ::
  "mem_reader \<Rightarrow> int64 \<Rightarrow> mem_fs \<Rightarrow> (mem_reader \<times> int64 \<times> error option) \<times> mem_fs" where
  "mem_Seek r off s =
     (if 0 \<le>s off \<and> off \<le>s mr_size r then ((r\<lparr>mr_pos := off\<rparr>, off, None), s)
      else if short_seek s then ((r\<lparr>mr_pos := mr_size r\<rparr>, mr_size r, None), s)
      else ((r, - 1, Some (RemoteError ''invalid resulting offset'')), s))"

definition mem_rClose :: "mem_reader \<Rightarrow> mem_fs \<Rightarrow> error option \<times> mem_fs" where
  "mem_rClose r s = (None, s)"

definition mem_Write :: "string \<Rightarrow> byte list \<Rightarrow> mem_fs \<Rightarrow> (nat \<times> error option) \<times> mem_fs" where
  "mem_Write h bs s =
     (if fail_write s then ((0, Some (RemoteError ''write failed'')), s)
      else (case map_of (files s) h of
              None \<Rightarrow> ((0, Some no_such_file), s)
            | Some old \<Rightarrow>
                ((length bs, None),
                 s\<lparr>files := (h, old @ bs) # filter (\<lambda>f. fst f \<noteq> h) (files s)\<rparr>)))"

definition mem_wClose :: "string \<Rightarrow> mem_fs \<Rightarrow> error option \<times> mem_fs" where
  "mem_wClose h s = (None, s\<lparr>closed_handles := closed_handles s @ [h]\<rparr>)"

definition mem_client :: "(mem_fs, mem_reader, string) hdfs_client" where
  "mem_client =
     \<lparr>cl_ReadFile = mem_ReadFile, cl_Open = mem_Open, cl_Create = mem_Create,
      cl_Append = mem_Append, cl_Remove = mem_Remove, cl_Rename = mem_Rename,
      cl_Stat = mem_Stat, cl_ReadDir = mem_ReadDir, cl_MkdirAll = mem_MkdirAll,
      rd_Seek = mem_Seek, rd_Close = mem_rClose, rd_Size = mr_size,
      wr_Write = mem_Write, wr_Close = mem_wClose\<rparr>"

text \<open>Connecting succeeds unless no namenode is given.\<close>

definition mem_NewForUser ::
  "string \<Rightarrow> string \<Rightarrow> error + (mem_fs, mem_reader, string) hdfs_client" where
  "mem_NewForUser nameNode user =
     (if nameNode = [] then Inl (RemoteError ''no namenode'') else Inr mem_client)"

definition mem_driver :: "string \<Rightarrow> (mem_fs, mem_reader, string) driver" where
  "mem_driver root =
     \<lparr>hdfsRootDirectory = root, hdfsNameNode = ''namenode:8020'', hdfsUser = ''hdfs'',
      directoryUmask = 493, hdfsClient = mem_client\<rparr>"

definition mem_world :: "(string \<times> byte list) list \<Rightarrow> mem_fs world" where
  "mem_world fs =
     \<lparr>remote = \<lparr>files = fs, closed_handles = [], fail_create = False, fail_write = False,
                short_seek = False\<rparr>,
      logged = []\<rparr>"

text \<open>Worlds whose remote side misbehaves.\<close>

definition failing_write_world :: "mem_fs world" where
  "failing_write_world =
     \<lparr>remote = \<lparr>files = [(''/r/f'', [])], closed_handles = [], fail_create = False,
                fail_write = True, short_seek = False\<rparr>,
      logged = []\<rparr>"

definition short_seek_world :: "(string \<times> byte list) list \<Rightarrow> mem_fs world" where
  "short_seek_world fs =
     \<lparr>remote = \<lparr>files = fs, closed_handles = [], fail_create = False, fail_write = False,
                short_seek = True\<rparr>,
      logged = []\<rparr>"

definition failing_create_world :: "mem_fs world" where
  "failing_create_world =
     \<lparr>remote = \<lparr>files = [], closed_handles = [], fail_create = True, fail_write = False,
                short_seek = False\<rparr>,
      logged = []\<rparr>"

subsection \<open>Runs of the driver\<close>

text \<open>\<^verbatim>\<open>PutContent\<close> against a remote side whose writes fail, and one whose creates fail.\<close>

definition put_with_failing_write :: "error option outcome \<times> mem_fs world" where
  "put_with_failing_write =
     PutContent (mem_driver ''/r'') ''/a/b'' [1, 2, 3]
       \<lparr>remote = \<lparr>files = [], closed_handles = [], fail_create = False, fail_write = True,
                  short_seek = False\<rparr>,
        logged = []\<rparr>"

definition put_with_failing_create :: "error option outcome \<times> mem_fs world" where
  "put_with_failing_create =
     PutContent (mem_driver ''/r'') ''/a/b'' [1, 2, 3]
       \<lparr>remote = \<lparr>files = [], closed_handles = [], fail_create = True, fail_write = False,
                  short_seek = False\<rparr>,
        logged = []\<rparr>"

text \<open>Construction parameters with and without a namenode.\<close>

definition unreachable_params :: driverParameters where
  "unreachable_params =
     \<lparr>p_hdfsRootDirectory = ''/tmp/hdfs-registry'', p_hdfsNameNode = [],
      p_hdfsUser = ''hdfs'', p_directoryUmask = 493\<rparr>"

definition reachable_params :: driverParameters where
  "reachable_params =
     \<lparr>p_hdfsRootDirectory = ''/tmp/hdfs-registry'', p_hdfsNameNode = ''namenode:8020'',
      p_hdfsUser = ''hdfs'', p_directoryUmask = 493\<rparr>"


text \<open>A parameters map with a string where the directory mask, an integer, is expected.\<close>

definition mistyped_mask :: "string \<rightharpoonup> gvalue" where
  "mistyped_mask = [''directoryumask'' \<mapsto> GString ''0755'', ''hdfsnamenode'' \<mapsto> GString ''nn'']"

text \<open>
  A session on an existing file, and the worlds after \<^verbatim>\<open>Close; Close\<close> and after
  \<^verbatim>\<open>Close; Write; Close\<close> on it.
\<close>

definition open_session :: "string fileWriter" where
  "open_session = newFileWriter (Some ''/r/f'') ''/r/f'' 0"

definition close_close :: "mem_fs world" where
  "close_close =
     (case Close mem_client open_session (mem_world [(''/r/f'', [])]) of
        (_, w1, wd1) \<Rightarrow> snd (snd (Close mem_client w1 wd1)))"

definition close_write_close :: "mem_fs world" where
  "close_write_close =
     (case Close mem_client open_session (mem_world [(''/r/f'', [])]) of
        (_, w1, wd1) \<Rightarrow>
          (case Write mem_client w1 [7] wd1 of
             (_, w2, wd2) \<Rightarrow> snd (snd (Close mem_client w2 wd2))))"

text \<open>A caller writing a sequence of byte slices, one \<^verbatim>\<open>Write\<close> each.\<close>

fun write_chunks ::
  "('s, 'r, 'w) hdfs_client \<Rightarrow> 'w fileWriter \<Rightarrow> byte list list \<Rightarrow> 's world
     \<Rightarrow> ('w fileWriter \<times> 's world) outcome" where
  "write_chunks c w [] wd = Return (w, wd)"
| "write_chunks c w (p # ps) wd =
     (case Write c w p wd of
        (Return r, w', wd') \<Rightarrow> write_chunks c w' ps wd'
      | (Panic, w', wd') \<Rightarrow> Panic
      | (Exit, w', wd') \<Rightarrow> Exit)"

text \<open>
  Two sessions on one path. The first session opens the path (with either flag), writes
  the slices \<open>xs\<close> and closes; its result is the world it leaves.
\<close>

definition first_session ::
  "('s, 'r, 'w) driver \<Rightarrow> string \<Rightarrow> bool \<Rightarrow> byte list list \<Rightarrow> 's world \<Rightarrow> 's world outcome" where
  "first_session d path first_flag xs wd =
     (case Writer d path first_flag wd of
        ((None, _), _) \<Rightarrow> Panic
      | ((Some w1, _), wd1) \<Rightarrow>
          (case write_chunks (hdfsClient d) w1 xs wd1 of
             Return (w2, wd2) \<Rightarrow> Return (snd (snd (Close (hdfsClient d) w2 wd2)))
           | Panic \<Rightarrow> Panic
           | Exit \<Rightarrow> Exit))"

text \<open>
  The second session opens the path for append, calls \<^verbatim>\<open>Size\<close> twice, writes the slices
  \<open>ys\<close> and calls \<^verbatim>\<open>Size\<close> twice again. Its result is the four sizes read.
\<close>

definition second_session ::
  "('s, 'r, 'w) driver \<Rightarrow> string \<Rightarrow> byte list list \<Rightarrow> 's world
     \<Rightarrow> (int64 \<times> int64 \<times> int64 \<times> int64) outcome" where
  "second_session d path ys wd =
     (case Writer d path True wd of
        ((None, _), _) \<Rightarrow> Panic
      | ((Some v1, _), wd1) \<Rightarrow>
          (case Size v1 of
             (n1, v2) \<Rightarrow>
               (case Size v2 of
                  (n2, v3) \<Rightarrow>
                    (case write_chunks (hdfsClient d) v3 ys wd1 of
                       Return (v4, wd2) \<Rightarrow>
                         (case Size v4 of (n3, v5) \<Rightarrow> Return (n1, n2, n3, fst (Size v5)))
                     | Panic \<Rightarrow> Panic
                     | Exit \<Rightarrow> Exit))))"

definition append_sizes ::
  "('s, 'r, 'w) driver \<Rightarrow> string \<Rightarrow> bool \<Rightarrow> byte list list \<Rightarrow> byte list list \<Rightarrow> 's world
     \<Rightarrow> (int64 \<times> int64 \<times> int64 \<times> int64) outcome" where
  "append_sizes d path first_flag xs ys wd =
     (case first_session d path first_flag xs wd of
        Return wd3 \<Rightarrow> second_session d path ys wd3
      | Panic \<Rightarrow> Panic
      | Exit \<Rightarrow> Exit)"

text \<open>The world the first session leaves after writing \<^verbatim>\<open>[1, 2]\<close> and \<^verbatim>\<open>[3]\<close> to \<^verbatim>\<open>/r/a\<close>.\<close>

definition after_first_session :: "mem_fs world" where
  "after_first_session =
     \<lparr>remote = \<lparr>files = [(''/r/a'', [1, 2, 3])], closed_handles = [''/r/a''],
                fail_create = False, fail_write = False, short_seek = False\<rparr>,
      logged = []\<rparr>"

text \<open>What \<^verbatim>\<open>Size\<close> reads on a new session with starting size \<open>n\<close>.\<close>

definition folded :: "int64 \<Rightarrow> int64" where
  "folded n = (if 0 <s n then n else 0)"

section \<open>Properties\<close>

lemma HasPrefix_iff_prefix: "HasPrefix s pre \<longleftrightarrow> prefix pre s"
  by (auto simp: HasPrefix_def prefix_def) (metis append_eq_conv_conj)

subsection \<open>Path resolution\<close>

lemma Join_two: "r \<noteq> [] \<Longrightarrow> Join [r, P] = Clean (r @ ''/'' @ P)"
  by simp

text \<open>
  Claim C7. For every logical path \<open>P\<close>: if \<open>P\<close> starts with the configured root
  directory (as a string prefix), \<open>fullPath\<close> returns \<open>P\<close> unchanged; otherwise it returns
  \<^verbatim>\<open>path.Join\<close> of the root and \<open>P\<close>, which is the root, a slash and \<open>P\<close>, cleaned.
\<close>

theorem fullPath_prefix_or_join:
  "(prefix (hdfsRootDirectory d) P \<longrightarrow> fullPath d P = P) \<and>
   (\<not> prefix (hdfsRootDirectory d) P \<longrightarrow>
      fullPath d P = Join [hdfsRootDirectory d, P] \<and>
      fullPath d P = Clean (hdfsRootDirectory d @ ''/'' @ P))"
proof (cases "prefix (hdfsRootDirectory d) P")
  case True
  then show ?thesis by (simp add: fullPath_def HasPrefix_iff_prefix)
next
  case False
  then have "hdfsRootDirectory d \<noteq> []" by auto
  with False show ?thesis by (simp add: fullPath_def HasPrefix_iff_prefix)
qed

theorem fullPath_prefix_or_join_witness:
  "prefix ''/tmp/hdfs-registry'' ''/tmp/hdfs-registry/docker/v2'' \<and>
   fullPath (mem_driver ''/tmp/hdfs-registry'') ''/tmp/hdfs-registry/docker/v2''
     = ''/tmp/hdfs-registry/docker/v2'' \<and>
   \<not> prefix ''/tmp/hdfs-registry'' ''/docker//registry/./v2/'' \<and>
   fullPath (mem_driver ''/tmp/hdfs-registry'') ''/docker//registry/./v2/''
     = ''/tmp/hdfs-registry/docker/registry/v2''"
  using fullPath_prefix_or_join [of "mem_driver ''/tmp/hdfs-registry''" "''/tmp/hdfs-registry/docker/v2''"]
    fullPath_prefix_or_join [of "mem_driver ''/tmp/hdfs-registry''" "''/docker//registry/./v2/''"]
  by (simp add: mem_driver_def Clean_def)

subsection \<open>Writing\<close>

text \<open>
  Claim C10, as amended. \<open>Write\<close> never returns an error. On a session that holds a
  remote handle it returns \<open>length p\<close> and nil whatever the remote write returns, and an
  error of the remote write ends in the log and nowhere else.
\<close>

theorem Write_hides_remote_failure:
  "returned_error (fst (Write c w p wd)) = None \<and>
   (hdfsWriter w = Some h \<longrightarrow>
      fst (Write c w p wd) = Return (length p, None) \<and>
      (snd (fst (wr_Write c h p (remote wd))) = Some e \<longrightarrow>
         logged (snd (snd (Write c w p wd))) = logged wd @ [e]))"
  by (simp add: Write_def Size_def Let_def log_if_def log_Print_def
      split: prod.splits option.splits)

theorem Write_hides_remote_failure_witness:
  "hdfsWriter (newFileWriter (Some ''/r/f'') ''/r/f'' 0) = Some ''/r/f'' \<and>
   snd (fst (wr_Write mem_client ''/r/f'' [1, 2] (remote failing_write_world)))
     = Some (RemoteError ''write failed'') \<and>
   fst (Write mem_client (newFileWriter (Some ''/r/f'') ''/r/f'' 0) [1, 2] failing_write_world)
     = Return (2, None) \<and>
   logged (snd (snd (Write mem_client (newFileWriter (Some ''/r/f'') ''/r/f'' 0) [1, 2]
                       failing_write_world)))
     = [RemoteError ''write failed'']"
  using Write_hides_remote_failure [of mem_client "newFileWriter (Some ''/r/f'') ''/r/f'' 0"
      "[1, 2]" failing_write_world "''/r/f''" "RemoteError ''write failed''"]
  by (simp add: newFileWriter_def failing_write_world_def mem_client_def mem_Write_def)

text \<open>
  The claim as stated fails: the session \<open>Writer\<close> hands out when the remote create
  fails has no remote handle, and \<open>Write\<close> on it panics instead of returning.
\<close>

theorem Write_nil_handle_counterexample:
  "fst (Writer (mem_driver ''/r'') ''/a'' False failing_create_world)
     = (Some \<lparr>hdfsWriter = None, filePath = ''/r/a'', isClosed = False, writeSize = 0,
              startingFileSize = 0\<rparr>, None) \<and>
   fst (Write mem_client
          \<lparr>hdfsWriter = None, filePath = ''/r/a'', isClosed = False, writeSize = 0,
           startingFileSize = 0\<rparr> [1, 2]
          (snd (Writer (mem_driver ''/r'') ''/a'' False failing_create_world)))
     = Panic"
  by (simp add: Writer_def Write_def Size_def failing_create_world_def mem_driver_def
      mem_client_def fullPath_def HasPrefix_def Clean_def Dir_def makeParentDir_def
      mem_MkdirAll_def mem_Open_def mem_Create_def handle_def newFileWriter_def Let_def)

subsection \<open>Listing\<close>

text \<open>
  Claim C9, as amended. \<open>List\<close> never returns an error. When the client's \<^verbatim>\<open>ReadDir\<close>
  fails, the result is the empty list; when it succeeds, the result is, for each entry it
  returned, the full path of the listed directory, a slash and the entry's name. These
  paths start with the root directory when the listed path does.
\<close>

theorem List_never_fails:
  "snd (fst (List d subPath wd)) = None \<and>
   (cl_ReadDir (hdfsClient d) (fullPath d subPath) (remote wd) = (Inl err, s) \<longrightarrow>
      List d subPath wd = (([], None), wd\<lparr>remote := s\<rparr>)) \<and>
   (cl_ReadDir (hdfsClient d) (fullPath d subPath) (remote wd) = (Inr fileInfos, s) \<longrightarrow>
      List d subPath wd =
        ((map (\<lambda>fi. fullPath d subPath @ ''/'' @ fi_Name fi) fileInfos, None),
         wd\<lparr>remote := s\<rparr>) \<and>
      (\<forall>q \<in> set (fst (fst (List d subPath wd))). prefix (fullPath d subPath @ ''/'') q)) \<and>
   (prefix (hdfsRootDirectory d) subPath \<longrightarrow>
      (\<forall>q \<in> set (fst (fst (List d subPath wd))). prefix (hdfsRootDirectory d) q))"
proof -
  have "prefix (hdfsRootDirectory d) q"
    if r: "prefix (hdfsRootDirectory d) subPath" and q: "q \<in> set (fst (fst (List d subPath wd)))"
    for q
  proof -
    from r have f: "fullPath d subPath = subPath"
      by (simp add: fullPath_def HasPrefix_iff_prefix)
    from q obtain n where "q = subPath @ ''/'' @ n"
      by (auto simp: List_def f split: prod.splits sum.splits)
    with r show ?thesis by (simp add: prefix_prefix)
  qed
  then show ?thesis
    by (auto simp: List_def split: prod.splits sum.splits)
qed

theorem List_never_fails_witness:
  "cl_ReadDir (hdfsClient (mem_driver ''/r'')) (fullPath (mem_driver ''/r'') ''/none'')
      (remote (mem_world [(''/r/a/b'', [1])]))
     = (Inl no_such_file, remote (mem_world [(''/r/a/b'', [1])])) \<and>
   List (mem_driver ''/r'') ''/none'' (mem_world [(''/r/a/b'', [1])])
     = (([], None), mem_world [(''/r/a/b'', [1])]) \<and>
   cl_ReadDir (hdfsClient (mem_driver ''/r'')) (fullPath (mem_driver ''/r'') ''/a'')
      (remote (mem_world [(''/r/a/b'', [1])]))
     = (Inr [\<lparr>fi_Name = ''b'', fi_Size = 1, fi_ModTime = 0, fi_IsDir = False\<rparr>],
        remote (mem_world [(''/r/a/b'', [1])])) \<and>
   fst (List (mem_driver ''/r'') ''/a'' (mem_world [(''/r/a/b'', [1])]))
     = ([''/r/a/b''], None) \<and>
   prefix ''/r/a/'' ''/r/a/b'' \<and>
   prefix (hdfsRootDirectory (mem_driver ''/r'')) ''/r/a'' \<and>
   fst (List (mem_driver ''/r'') ''/r/a'' (mem_world [(''/r/a/b'', [1])]))
     = ([''/r/a/b''], None) \<and>
   prefix ''/r'' ''/r/a/b''"
  using List_never_fails [of "mem_driver ''/r''" "''/none''" "mem_world [(''/r/a/b'', [1])]"
      no_such_file "remote (mem_world [(''/r/a/b'', [1])])"]
    List_never_fails [of "mem_driver ''/r''" "''/a''" "mem_world [(''/r/a/b'', [1])]" _
      "remote (mem_world [(''/r/a/b'', [1])])"
      "[\<lparr>fi_Name = ''b'', fi_Size = 1, fi_ModTime = 0, fi_IsDir = False\<rparr>]"]
    List_never_fails [of "mem_driver ''/r''" "''/r/a''" "mem_world [(''/r/a/b'', [1])]" _
      "remote (mem_world [(''/r/a/b'', [1])])"
      "[\<lparr>fi_Name = ''b'', fi_Size = 1, fi_ModTime = 0, fi_IsDir = False\<rparr>]"]
  by (simp add: mem_driver_def mem_world_def mem_client_def mem_ReadDir_def fullPath_def
      HasPrefix_def Clean_def base_name_def List_def)

text \<open>
  The claim as stated fails: with the root \<^verbatim>\<open>/r\<close>, listing \<^verbatim>\<open>/../x\<close> returns the path
  \<^verbatim>\<open>/x/b\<close>, which does not start with the root.
\<close>

theorem List_not_root_prefixed_counterexample:
  "fst (List (mem_driver ''/r'') ''/../x'' (mem_world [(''/x/b'', [1])])) = ([''/x/b''], None) \<and>
   \<not> prefix ''/r'' ''/x/b''"
  by (simp add: List_def mem_driver_def mem_world_def mem_client_def mem_ReadDir_def
      fullPath_def HasPrefix_def Clean_def base_name_def)

subsection \<open>The size counter\<close>

text \<open>Reading the size twice gives the same value: the starting size is folded in once.\<close>

lemma Size_twice: "fst (Size (snd (Size w))) = fst (Size w)"
  by (simp add: Size_def word_sless_alt)

lemma Size_handle [simp]: "hdfsWriter (snd (Size w)) = hdfsWriter w"
  by (simp add: Size_def)

lemma Size_new: "fst (Size (newFileWriter h q n)) = folded n"
  by (simp add: Size_def newFileWriter_def folded_def)

lemma Size_nonneg_start:
  "0 \<le>s startingFileSize w \<Longrightarrow> writeSize w = 0 \<Longrightarrow> fst (Size w) = startingFileSize w"
  by (auto simp: Size_def word_sless_alt word_sle_eq signed_eq_0_iff)

lemma Size_after_Write:
  "hdfsWriter w = Some h \<Longrightarrow>
   fst (Size (fst (snd (Write c w p wd)))) = fst (Size w) + of_nat (length p)"
  by (simp add: Write_def Size_def Let_def word_sless_alt split: prod.splits)

lemma Write_handle:
  "hdfsWriter w = Some h \<Longrightarrow> hdfsWriter (fst (snd (Write c w p wd))) = Some h"
  by (simp add: Write_def Let_def split: prod.splits)

lemma Write_returns:
  "hdfsWriter w = Some h \<Longrightarrow> fst (Write c w p wd) = Return (length p, None)"
  by (simp add: Write_def Let_def split: prod.splits)

subsection \<open>The in-memory client, step by step\<close>

lemma mem_client_sel [simp]:
  "cl_ReadFile mem_client = mem_ReadFile" "cl_Open mem_client = mem_Open"
  "cl_Create mem_client = mem_Create" "cl_Append mem_client = mem_Append"
  "cl_Remove mem_client = mem_Remove" "cl_Rename mem_client = mem_Rename"
  "cl_Stat mem_client = mem_Stat" "cl_ReadDir mem_client = mem_ReadDir"
  "cl_MkdirAll mem_client = mem_MkdirAll" "rd_Seek mem_client = mem_Seek"
  "rd_Close mem_client = mem_rClose" "rd_Size mem_client = mr_size"
  "wr_Write mem_client = mem_Write" "wr_Close mem_client = mem_wClose"
  by (simp_all add: mem_client_def)

lemma mem_Write_step:
  assumes "hdfsWriter w = Some h" "\<not> fail_write (remote wd)"
    "map_of (files (remote wd)) h = Some old"
  shows "map_of (files (remote (snd (snd (Write mem_client w p wd))))) h = Some (old @ p) \<and>
    \<not> fail_write (remote (snd (snd (Write mem_client w p wd))))"
  using assms by (simp add: Write_def Let_def mem_Write_def log_if_def split: prod.splits)

lemma mem_Close_files:
  "files (remote (snd (snd (Close mem_client w wd)))) = files (remote wd)"
  by (simp add: Close_def Let_def mem_wClose_def log_if_def split: option.splits)

lemma mem_Close_fail_write:
  "fail_write (remote (snd (snd (Close mem_client w wd)))) = fail_write (remote wd)"
  by (simp add: Close_def Let_def mem_wClose_def log_if_def split: option.splits)

lemma mem_makeParentDir [simp]:
  "hdfsClient d = mem_client \<Longrightarrow> makeParentDir d q wd = (None, wd)"
  by (simp add: makeParentDir_def mem_MkdirAll_def)

lemma mem_Writer_fresh:
  "hdfsClient d = mem_client \<Longrightarrow> \<not> fail_create (remote wd) \<Longrightarrow>
   map_of (files (remote wd)) (fullPath d p) = None \<Longrightarrow>
   Writer d p a wd =
     ((Some (newFileWriter (Some (fullPath d p)) (fullPath d p) 0), None),
      wd\<lparr>remote := (remote wd)\<lparr>files := (fullPath d p, []) # files (remote wd)\<rparr>\<rparr>)"
  by (simp add: Writer_def Let_def mem_Open_def mem_Create_def handle_def)

lemma mem_Writer_append:
  "hdfsClient d = mem_client \<Longrightarrow> map_of (files (remote wd)) (fullPath d p) = Some bs \<Longrightarrow>
   Writer d p True wd =
     ((Some (newFileWriter (Some (fullPath d p)) (fullPath d p) (of_nat (length bs))), None), wd)"
  by (simp add: Writer_def Let_def mem_Open_def mem_Append_def handle_def)

subsection \<open>Opening a writer session\<close>

text \<open>
  Claim C2. \<open>Writer\<close> first provisions the parent directory and opens the target for
  reading. If that open fails (the only test of existence the code makes), it creates the
  target and the session starts at size 0, whatever the append flag. If the open succeeds
  and the flag is false, it removes the target, creates it again, and the session starts
  at size 0. If the open succeeds and the flag is true, it opens the target for append and
  the session starts at the size of the existing object, which is what \<^verbatim>\<open>Size\<close> then
  reads. The session holds the handle the client returned (nil when the client's call
  failed), its full path, a clear closed flag and a write counter of 0; it is returned
  with a nil error in every case.
\<close>

theorem Writer_open_mode:
  "let c = hdfsClient d; fp = fullPath d p; wd1 = snd (makeParentDir d fp wd) in
   (cl_Open c fp (remote wd1) = (Inl err, s2) \<longrightarrow>
      Writer d p a wd =
        ((Some \<lparr>hdfsWriter = (case fst (cl_Create c fp s2) of Inl e \<Rightarrow> None | Inr h \<Rightarrow> Some h),
                 filePath = fp, isClosed = False, writeSize = 0, startingFileSize = 0\<rparr>, None),
         wd1\<lparr>remote := snd (cl_Create c fp s2)\<rparr>) \<and>
      map_option (\<lambda>w. fst (Size w)) (fst (fst (Writer d p a wd))) = Some 0) \<and>
   (cl_Open c fp (remote wd1) = (Inr reader, s2) \<and> \<not> a \<longrightarrow>
      Writer d p a wd =
        ((Some \<lparr>hdfsWriter = (case fst (cl_Create c fp (snd (cl_Remove c fp s2))) of
                                 Inl e \<Rightarrow> None | Inr h \<Rightarrow> Some h),
                 filePath = fp, isClosed = False, writeSize = 0, startingFileSize = 0\<rparr>, None),
         wd1\<lparr>remote := snd (cl_Create c fp (snd (cl_Remove c fp s2)))\<rparr>) \<and>
      map_option (\<lambda>w. fst (Size w)) (fst (fst (Writer d p a wd))) = Some 0) \<and>
   (cl_Open c fp (remote wd1) = (Inr reader, s2) \<and> a \<longrightarrow>
      Writer d p a wd =
        ((Some \<lparr>hdfsWriter = (case fst (cl_Append c fp s2) of Inl e \<Rightarrow> None | Inr h \<Rightarrow> Some h),
                 filePath = fp, isClosed = False, writeSize = 0,
                 startingFileSize = rd_Size c reader\<rparr>, None),
         wd1\<lparr>remote := snd (cl_Append c fp s2)\<rparr>) \<and>
      (0 \<le>s rd_Size c reader \<longrightarrow>
         map_option (\<lambda>w. fst (Size w)) (fst (fst (Writer d p a wd))) = Some (rd_Size c reader)))"
  by (simp add: Writer_def Let_def newFileWriter_def handle_def Size_nonneg_start
      split: prod.splits sum.splits)

theorem Writer_open_mode_witness:
  "Writer (mem_driver ''/r'') ''/a'' True (mem_world [])
     = ((Some \<lparr>hdfsWriter = Some ''/r/a'', filePath = ''/r/a'', isClosed = False,
               writeSize = 0, startingFileSize = 0\<rparr>, None), mem_world [(''/r/a'', [])]) \<and>
   Writer (mem_driver ''/r'') ''/a'' False (mem_world [(''/r/a'', [1, 2, 3])])
     = ((Some \<lparr>hdfsWriter = Some ''/r/a'', filePath = ''/r/a'', isClosed = False,
               writeSize = 0, startingFileSize = 0\<rparr>, None), mem_world [(''/r/a'', [])]) \<and>
   Writer (mem_driver ''/r'') ''/a'' True (mem_world [(''/r/a'', [1, 2, 3])])
     = ((Some \<lparr>hdfsWriter = Some ''/r/a'', filePath = ''/r/a'', isClosed = False,
               writeSize = 0, startingFileSize = 3\<rparr>, None),
        mem_world [(''/r/a'', [1, 2, 3])]) \<and>
   map_option (\<lambda>w. fst (Size w))
     (fst (fst (Writer (mem_driver ''/r'') ''/a'' True (mem_world [(''/r/a'', [1, 2, 3])]))))
     = Some 3"
  using Writer_open_mode [of "mem_driver ''/r''" "''/a''" "mem_world []" no_such_file
      "remote (mem_world [])" True]
    Writer_open_mode [of "mem_driver ''/r''" "''/a''" "mem_world [(''/r/a'', [1, 2, 3])]" _
      "remote (mem_world [(''/r/a'', [1, 2, 3])])" False
      "\<lparr>mr_path = ''/r/a'', mr_size = 3, mr_pos = 0\<rparr>"]
    Writer_open_mode [of "mem_driver ''/r''" "''/a''" "mem_world [(''/r/a'', [1, 2, 3])]" _
      "remote (mem_world [(''/r/a'', [1, 2, 3])])" True
      "\<lparr>mr_path = ''/r/a'', mr_size = 3, mr_pos = 0\<rparr>"]
  by (simp add: mem_driver_def mem_world_def mem_client_def fullPath_def HasPrefix_def
      Clean_def Dir_def makeParentDir_def mem_MkdirAll_def mem_Open_def mem_Create_def
      mem_Remove_def mem_Append_def Let_def word_sle_eq Writer_def newFileWriter_def
      handle_def Size_def word_sless_alt)

lemma map_of_filter_other:
  "map_of (filter (\<lambda>f. fst f \<noteq> k) fs) k = None"
  by (induction fs) auto

text \<open>
  On the in-memory client, where a target exists when the file table has it: opening a
  target that does not exist leaves it there, empty, with a session starting at 0,
  whatever the flag; opening an existing target without the append flag leaves it empty,
  with a session starting at 0; opening it with the flag changes nothing and the session
  starts at the number of bytes the object holds.
\<close>

theorem mem_Writer_selects_mode:
  assumes "hdfsClient d = mem_client" and "\<not> fail_create (remote wd)"
  shows "(map_of (files (remote wd)) (fullPath d p) = None \<longrightarrow>
      fst (Writer d p a wd)
        = (Some \<lparr>hdfsWriter = Some (fullPath d p), filePath = fullPath d p, isClosed = False,
                  writeSize = 0, startingFileSize = 0\<rparr>, None) \<and>
      map_of (files (remote (snd (Writer d p a wd)))) (fullPath d p) = Some []) \<and>
    (map_of (files (remote wd)) (fullPath d p) = Some bs \<longrightarrow>
      fst (Writer d p False wd)
        = (Some \<lparr>hdfsWriter = Some (fullPath d p), filePath = fullPath d p, isClosed = False,
                  writeSize = 0, startingFileSize = 0\<rparr>, None) \<and>
      map_of (files (remote (snd (Writer d p False wd)))) (fullPath d p) = Some [] \<and>
      Writer d p True wd
        = ((Some \<lparr>hdfsWriter = Some (fullPath d p), filePath = fullPath d p, isClosed = False,
                   writeSize = 0, startingFileSize = of_nat (length bs)\<rparr>, None), wd))"
proof -
  have fresh: "fst (Writer d p a wd)
        = (Some \<lparr>hdfsWriter = Some (fullPath d p), filePath = fullPath d p, isClosed = False,
                  writeSize = 0, startingFileSize = 0\<rparr>, None) \<and>
      map_of (files (remote (snd (Writer d p a wd)))) (fullPath d p) = Some []"
    if "map_of (files (remote wd)) (fullPath d p) = None"
    using mem_Writer_fresh [OF assms that, of a] by (simp add: newFileWriter_def)
  have trunc: "fst (Writer d p False wd)
        = (Some \<lparr>hdfsWriter = Some (fullPath d p), filePath = fullPath d p, isClosed = False,
                  writeSize = 0, startingFileSize = 0\<rparr>, None) \<and>
      map_of (files (remote (snd (Writer d p False wd)))) (fullPath d p) = Some []"
    if "map_of (files (remote wd)) (fullPath d p) = Some bs"
    using assms that
    by (simp add: Writer_def Let_def mem_Open_def mem_Remove_def mem_Create_def handle_def
        map_of_filter_other newFileWriter_def)
  have app: "Writer d p True wd
        = ((Some \<lparr>hdfsWriter = Some (fullPath d p), filePath = fullPath d p, isClosed = False,
                   writeSize = 0, startingFileSize = of_nat (length bs)\<rparr>, None), wd)"
    if "map_of (files (remote wd)) (fullPath d p) = Some bs"
    using mem_Writer_append [OF assms(1) that] by (simp add: newFileWriter_def)
  from fresh trunc app show ?thesis by blast
qed

theorem mem_Writer_selects_mode_witness:
  "hdfsClient (mem_driver ''/r'') = mem_client \<and>
   \<not> fail_create (remote (mem_world [(''/r/old'', [1, 2, 3])])) \<and>
   map_of (files (remote (mem_world [(''/r/old'', [1, 2, 3])]))) (fullPath (mem_driver ''/r'') ''/new'')
     = None \<and>
   fst (Writer (mem_driver ''/r'') ''/new'' True (mem_world [(''/r/old'', [1, 2, 3])]))
     = (Some \<lparr>hdfsWriter = Some ''/r/new'', filePath = ''/r/new'', isClosed = False,
               writeSize = 0, startingFileSize = 0\<rparr>, None) \<and>
   map_of (files (remote (mem_world [(''/r/old'', [1, 2, 3])]))) (fullPath (mem_driver ''/r'') ''/old'')
     = Some [1, 2, 3] \<and>
   fst (Writer (mem_driver ''/r'') ''/old'' False (mem_world [(''/r/old'', [1, 2, 3])]))
     = (Some \<lparr>hdfsWriter = Some ''/r/old'', filePath = ''/r/old'', isClosed = False,
               writeSize = 0, startingFileSize = 0\<rparr>, None) \<and>
   fst (Writer (mem_driver ''/r'') ''/old'' True (mem_world [(''/r/old'', [1, 2, 3])]))
     = (Some \<lparr>hdfsWriter = Some ''/r/old'', filePath = ''/r/old'', isClosed = False,
               writeSize = 0, startingFileSize = 3\<rparr>, None)"
  using mem_Writer_selects_mode [of "mem_driver ''/r''" "mem_world [(''/r/old'', [1, 2, 3])]"
      "''/new''" True]
    mem_Writer_selects_mode [of "mem_driver ''/r''" "mem_world [(''/r/old'', [1, 2, 3])]"
      "''/old''" _ "[1, 2, 3]"]
  by (simp add: mem_driver_def mem_world_def fullPath_def HasPrefix_def Clean_def)

subsection \<open>Closing a writer session\<close>

text \<open>
  Claim C8, as amended. \<open>Close\<close> always returns nil. On a session with a remote handle
  whose closed flag is clear, it closes the remote handle (logging a failure of that
  close) and sets the flag. On a session whose flag is set, or that has no remote handle,
  it leaves the remote side and the log as they are; so a \<open>Close\<close> right after a \<open>Close\<close>
  changes nothing. A \<open>Write\<close> clears the flag and keeps the handle, so the next \<open>Close\<close>
  closes the remote handle again.
\<close>

theorem Close_idempotent_until_Write:
  "fst (Close c w wd) = None \<and>
   (hdfsWriter w = Some h \<and> \<not> isClosed w \<longrightarrow>
      snd (snd (Close c w wd))
        = log_if (fst (wr_Close c h (remote wd))) (wd\<lparr>remote := snd (wr_Close c h (remote wd))\<rparr>) \<and>
      isClosed (fst (snd (Close c w wd)))) \<and>
   (isClosed w \<or> hdfsWriter w = None \<longrightarrow>
      snd (snd (Close c w wd)) = wd \<and> isClosed (fst (snd (Close c w wd))) = isClosed w) \<and>
   snd (snd (Close c (fst (snd (Close c w wd))) wd')) = wd' \<and>
   (hdfsWriter w = Some h \<longrightarrow>
      \<not> isClosed (fst (snd (Write c w p wd))) \<and>
      hdfsWriter (fst (snd (Write c w p wd))) = Some h)"
  by (simp add: Close_def Write_def Size_def Let_def split: prod.splits option.splits)

theorem Close_idempotent_until_Write_witness:
  "hdfsWriter open_session = Some ''/r/f'' \<and> \<not> isClosed open_session \<and>
   closed_handles (remote (snd (snd (Close mem_client open_session (mem_world [(''/r/f'', [])])))))
     = [''/r/f''] \<and>
   isClosed (fst (snd (Close mem_client open_session (mem_world [(''/r/f'', [])])))) \<and>
   closed_handles (remote close_close) = [''/r/f'']"
  using Close_idempotent_until_Write [of mem_client open_session "mem_world [(''/r/f'', [])]"
      "''/r/f''" "snd (snd (Close mem_client open_session (mem_world [(''/r/f'', [])])))"]
  by (simp add: open_session_def newFileWriter_def close_close_def mem_world_def Close_def
      Size_def mem_client_def mem_wClose_def log_if_def Let_def)

text \<open>
  The claim as stated fails: after \<^verbatim>\<open>Close; Write; Close\<close> the remote handle has been
  closed twice.
\<close>

theorem Close_after_Write_counterexample:
  "closed_handles (remote close_write_close) = [''/r/f'', ''/r/f''] \<and>
   files (remote close_write_close) = [(''/r/f'', [7])]"
  by (simp add: close_write_close_def open_session_def newFileWriter_def Close_def Write_def
      Size_def mem_world_def mem_client_def mem_wClose_def mem_Write_def log_if_def Let_def)

subsection \<open>Storing content\<close>

text \<open>
  Claim C1. The claim asks that \<open>PutContent\<close> return the failure when the writer cannot
  be created or the remote write fails. The code does not: with a failing remote write it
  returns nil, leaves an empty object behind and only logs the error; with a failing
  create it panics.
\<close>

theorem PutContent_hides_failed_write:
  "fst put_with_failing_write = Return None \<and>
   files (remote (snd put_with_failing_write)) = [(''/r/a/b'', [])] \<and>
   logged (snd put_with_failing_write) = [RemoteError ''write failed''] \<and>
   fst put_with_failing_create = Panic"
  by (simp add: put_with_failing_write_def put_with_failing_create_def PutContent_def Writer_def
      Write_def Close_def Size_def mem_driver_def mem_client_def fullPath_def HasPrefix_def
      Clean_def Dir_def makeParentDir_def mem_MkdirAll_def mem_Open_def mem_Create_def
      handle_def Let_def mem_wClose_def mem_Write_def log_if_def log_Print_def
      newFileWriter_def)

text \<open>Whatever the client does, \<open>PutContent\<close> returns nil or panics.\<close>

theorem PutContent_returns_no_error:
  "fst (PutContent d path contents wd) = Return None \<or>
   fst (PutContent d path contents wd) = Panic"
  by (simp add: PutContent_def Writer_def Write_def Close_def Size_def Let_def
      split: prod.splits option.splits sum.splits outcome.splits)

subsection \<open>Opening a reader session\<close>

text \<open>
  Claim C4, as amended. When opening the remote file succeeds: if the seek itself returns
  an error, \<open>Reader\<close> closes the handle and returns that error; if the seek succeeds at a
  position below the requested offset, \<open>Reader\<close> closes the handle and fails with
  \<open>InvalidOffsetError\<close>, which carries the full path and the offset; otherwise it
  returns the reader as the seek left it.
\<close>

theorem Reader_after_open:
  "cl_Open (hdfsClient d) (fullPath d p) (remote wd) = (Inr r, s1) \<Longrightarrow>
   rd_Seek (hdfsClient d) r k s1 = ((r', pos, eo), s2) \<Longrightarrow>
   (eo = Some e \<longrightarrow>
      Reader d p k wd =
        (Return (None, Some e), wd\<lparr>remote := snd (rd_Close (hdfsClient d) r' s2)\<rparr>)) \<and>
   (eo = None \<and> pos <s k \<longrightarrow>
      Reader d p k wd =
        (Return (None, Some (InvalidOffsetError (fullPath d p) k)),
         wd\<lparr>remote := snd (rd_Close (hdfsClient d) r' s2)\<rparr>)) \<and>
   (eo = None \<and> \<not> pos <s k \<longrightarrow>
      Reader d p k wd = (Return (Some r', None), wd\<lparr>remote := s2\<rparr>))"
  by (simp add: Reader_def Let_def)

theorem Reader_after_open_witness:
  "Reader (mem_driver ''/r'') ''/a'' 5 (mem_world [(''/r/a'', [1, 2, 3])])
     = (Return (None, Some (RemoteError ''invalid resulting offset'')),
        mem_world [(''/r/a'', [1, 2, 3])]) \<and>
   Reader (mem_driver ''/r'') ''/a'' 5 (short_seek_world [(''/r/a'', [1, 2, 3])])
     = (Return (None, Some (InvalidOffsetError ''/r/a'' 5)),
        short_seek_world [(''/r/a'', [1, 2, 3])]) \<and>
   Reader (mem_driver ''/r'') ''/a'' 2 (mem_world [(''/r/a'', [1, 2, 3])])
     = (Return (Some \<lparr>mr_path = ''/r/a'', mr_size = 3, mr_pos = 2\<rparr>, None),
        mem_world [(''/r/a'', [1, 2, 3])])"
  using Reader_after_open [of "mem_driver ''/r''" "''/a''" "mem_world [(''/r/a'', [1, 2, 3])]"
      "\<lparr>mr_path = ''/r/a'', mr_size = 3, mr_pos = 0\<rparr>" "remote (mem_world [(''/r/a'', [1, 2, 3])])"
      5 "\<lparr>mr_path = ''/r/a'', mr_size = 3, mr_pos = 0\<rparr>" "- 1"
      "Some (RemoteError ''invalid resulting offset'')" "remote (mem_world [(''/r/a'', [1, 2, 3])])"
      "RemoteError ''invalid resulting offset''"]
    Reader_after_open [of "mem_driver ''/r''" "''/a''" "short_seek_world [(''/r/a'', [1, 2, 3])]"
      "\<lparr>mr_path = ''/r/a'', mr_size = 3, mr_pos = 0\<rparr>"
      "remote (short_seek_world [(''/r/a'', [1, 2, 3])])"
      5 "\<lparr>mr_path = ''/r/a'', mr_size = 3, mr_pos = 3\<rparr>" 3 None
      "remote (short_seek_world [(''/r/a'', [1, 2, 3])])"]
    Reader_after_open [of "mem_driver ''/r''" "''/a''" "mem_world [(''/r/a'', [1, 2, 3])]"
      "\<lparr>mr_path = ''/r/a'', mr_size = 3, mr_pos = 0\<rparr>" "remote (mem_world [(''/r/a'', [1, 2, 3])])"
      2 "\<lparr>mr_path = ''/r/a'', mr_size = 3, mr_pos = 2\<rparr>" 2 None
      "remote (mem_world [(''/r/a'', [1, 2, 3])])"]
  by (simp add: mem_driver_def mem_world_def short_seek_world_def mem_client_def fullPath_def
      HasPrefix_def Clean_def mem_Open_def mem_Seek_def mem_rClose_def word_sless_alt
      word_sle_eq)

text \<open>
  The claim as stated fails: an offset beyond the end of an object that was opened is
  answered with the seek's own error, and \<open>InvalidOffsetError\<close> carries the full path
  \<^verbatim>\<open>/r/a\<close>, not the path \<^verbatim>\<open>/a\<close> that was asked for.
\<close>

theorem Reader_counterexample:
  "fst (Reader (mem_driver ''/r'') ''/a'' 5 (mem_world [(''/r/a'', [1, 2, 3])]))
     = Return (None, Some (RemoteError ''invalid resulting offset'')) \<and>
   fst (Reader (mem_driver ''/r'') ''/a'' 5 (short_seek_world [(''/r/a'', [1, 2, 3])]))
     = Return (None, Some (InvalidOffsetError ''/r/a'' 5)) \<and>
   InvalidOffsetError ''/r/a'' 5 \<noteq> InvalidOffsetError ''/a'' 5"
  by (simp add: Reader_def mem_driver_def mem_world_def short_seek_world_def mem_client_def
      fullPath_def HasPrefix_def Clean_def mem_Open_def mem_Seek_def mem_rClose_def
      word_sless_alt word_sle_eq Let_def)

text \<open>
  When the open fails, \<open>Reader\<close> logs the error and panics; it returns no
  \<open>PathNotFoundError\<close>, unlike \<open>GetContent\<close> and \<open>Stat\<close>.
\<close>

theorem Reader_open_failure_panics:
  "cl_Open (hdfsClient d) (fullPath d p) (remote wd) = (Inl err, s1) \<Longrightarrow>
   Reader d p k wd = (Panic, log_Print err (wd\<lparr>remote := s1\<rparr>))"
  by (simp add: Reader_def)

theorem Reader_open_failure_panics_witness:
  "cl_Open (hdfsClient (mem_driver ''/r'')) (fullPath (mem_driver ''/r'') ''/missing'')
      (remote (mem_world []))
     = (Inl no_such_file, remote (mem_world [])) \<and>
   Reader (mem_driver ''/r'') ''/missing'' 0 (mem_world [])
     = (Panic, log_Print no_such_file (mem_world []))"
  using Reader_open_failure_panics [of "mem_driver ''/r''" "''/missing''" "mem_world []"
      no_such_file "remote (mem_world [])" 0]
  by (simp add: mem_driver_def mem_world_def mem_client_def fullPath_def HasPrefix_def
      Clean_def mem_Open_def)

subsection \<open>Construction\<close>

text \<open>
  Claim C5, as amended. When the connection to the namenode fails, \<open>New\<close> logs the error
  and exits the process; it returns nothing to its caller. When the connection succeeds,
  \<open>New\<close> returns the driver and a nil error. \<open>New\<close> never returns an error.
\<close>

theorem New_exits_when_connection_fails:
  "(NewForUser (p_hdfsNameNode params) (p_hdfsUser params) = Inl err \<longrightarrow>
      New NewForUser params wd = (Exit, log_Print err wd)) \<and>
   (NewForUser (p_hdfsNameNode params) (p_hdfsUser params) = Inr client \<longrightarrow>
      New NewForUser params wd =
        (Return (\<lparr>hdfsRootDirectory = p_hdfsRootDirectory params,
                  hdfsNameNode = p_hdfsNameNode params,
                  hdfsUser = p_hdfsUser params,
                  directoryUmask = p_directoryUmask params,
                  hdfsClient = client\<rparr>, None), wd)) \<and>
   returned_error (fst (New NewForUser params wd)) = None"
  by (simp add: New_def split: sum.splits)

theorem New_exits_when_connection_fails_witness:
  "mem_NewForUser (p_hdfsNameNode unreachable_params) (p_hdfsUser unreachable_params)
     = Inl (RemoteError ''no namenode'') \<and>
   New mem_NewForUser unreachable_params (mem_world [])
     = (Exit, log_Print (RemoteError ''no namenode'') (mem_world [])) \<and>
   mem_NewForUser (p_hdfsNameNode reachable_params) (p_hdfsUser reachable_params)
     = Inr mem_client \<and>
   New mem_NewForUser reachable_params (mem_world [])
     = (Return (mem_driver ''/tmp/hdfs-registry'', None), mem_world [])"
  using New_exits_when_connection_fails [of mem_NewForUser unreachable_params
      "RemoteError ''no namenode''" "mem_world []"]
    New_exits_when_connection_fails [of mem_NewForUser reachable_params _ "mem_world []"
      mem_client]
  by (simp add: mem_NewForUser_def unreachable_params_def reachable_params_def mem_driver_def)

text \<open>The claim as stated fails: with no namenode to connect to, the process exits.\<close>

theorem New_connection_failure_counterexample:
  "fst (New mem_NewForUser unreachable_params (mem_world [])) = Exit \<and>
   \<not> returns (fst (New mem_NewForUser unreachable_params (mem_world []))) \<and>
   returned_error (fst (New mem_NewForUser unreachable_params (mem_world []))) = None \<and>
   logged (snd (New mem_NewForUser unreachable_params (mem_world [])))
     = [RemoteError ''no namenode'']"
  by (simp add: New_def mem_NewForUser_def unreachable_params_def log_Print_def mem_world_def)

subsection \<open>Configuration\<close>




text \<open>
  A value for the directory mask that is not an integer makes the type assertion, and
  with it \<open>FromParameters\<close>, panic.
\<close>

theorem FromParameters_mask_assertion_panics:
  "m ''directoryumask'' = Some v \<Longrightarrow> assertInt v = Panic \<Longrightarrow>
   FromParameters NewForUser (Some m) wd = (Panic, wd)"
  by (simp add: FromParameters_def Let_def)

theorem FromParameters_mask_assertion_panics_witness:
  "mistyped_mask ''directoryumask'' = Some (GString ''0755'') \<and>
   assertInt (GString ''0755'') = Panic \<and>
   FromParameters mem_NewForUser (Some mistyped_mask) (mem_world []) = (Panic, mem_world [])"
  using FromParameters_mask_assertion_panics [of mistyped_mask "GString ''0755''"
      mem_NewForUser "mem_world []"]
  by (simp add: mistyped_mask_def)

subsection \<open>Size accounting across sessions\<close>

text \<open>
  On any client, a session with a remote handle takes every slice, and its size grows by
  the number of bytes handed to it (in 64-bit arithmetic).
\<close>

lemma write_chunks_Size:
  "hdfsWriter w = Some h \<Longrightarrow>
   \<exists>w' wd'. write_chunks c w ps wd = Return (w', wd') \<and> hdfsWriter w' = Some h \<and>
     fst (Size w') = fst (Size w) + of_nat (length (concat ps))"
proof (induction ps arbitrary: w wd)
  case Nil
  then show ?case by simp
next
  case (Cons p ps)
  obtain r w1 wd1 where W: "Write c w p wd = (r, w1, wd1)"
    by (cases "Write c w p wd") auto
  from Cons.prems W have r: "r = Return (length p, None)" and h1: "hdfsWriter w1 = Some h"
    and s1: "fst (Size w1) = fst (Size w) + of_nat (length p)"
    using Write_returns [of w h c p wd] Write_handle [of w h c p wd]
      Size_after_Write [of w h c p wd] by simp_all
  from Cons.IH [OF h1, of wd1] obtain w' wd' where
    "write_chunks c w1 ps wd1 = Return (w', wd')" "hdfsWriter w' = Some h"
    "fst (Size w') = fst (Size w1) + of_nat (length (concat ps))" by blast
  with W r s1 show ?case by (simp add: add.assoc)
qed

text \<open>On the in-memory client the slices written end up in the file, in order.\<close>

lemma mem_write_chunks_files:
  "hdfsWriter w = Some h \<Longrightarrow> \<not> fail_write (remote wd) \<Longrightarrow>
   map_of (files (remote wd)) h = Some old \<Longrightarrow>
   write_chunks mem_client w ps wd = Return (w', wd') \<Longrightarrow>
   map_of (files (remote wd')) h = Some (old @ concat ps) \<and> \<not> fail_write (remote wd')"
proof (induction ps arbitrary: w wd old)
  case Nil
  then show ?case by simp
next
  case (Cons p ps)
  obtain r w1 wd1 where W: "Write mem_client w p wd = (r, w1, wd1)"
    by (cases "Write mem_client w p wd") auto
  from Cons.prems(1) W have r: "r = Return (length p, None)" and h1: "hdfsWriter w1 = Some h"
    using Write_returns [of w h mem_client p wd] Write_handle [of w h mem_client p wd]
    by simp_all
  from mem_Write_step [OF Cons.prems(1-3), of p] W
  have f1: "map_of (files (remote wd1)) h = Some (old @ p)" "\<not> fail_write (remote wd1)"
    by simp_all
  from Cons.prems(4) W r have "write_chunks mem_client w1 ps wd1 = Return (w', wd')" by simp
  from Cons.IH [OF h1 f1(2) f1(1) this] show ?case by simp
qed

text \<open>
  On any client: when the target opens and the append succeeds, the second session reads
  the size the reader reports (if it is positive, else 0), twice, and after writing \<open>ys\<close>
  that size plus the bytes of \<open>ys\<close>, twice.
\<close>

lemma second_session_sizes:
  assumes o: "cl_Open (hdfsClient d) (fullPath d p)
        (remote (snd (makeParentDir d (fullPath d p) wd))) = (Inr reader, s2)"
    and ap: "cl_Append (hdfsClient d) (fullPath d p) s2 = (Inr h, s3)"
  shows "second_session d p ys wd =
    Return (folded (rd_Size (hdfsClient d) reader), folded (rd_Size (hdfsClient d) reader),
            folded (rd_Size (hdfsClient d) reader) + of_nat (length (concat ys)),
            folded (rd_Size (hdfsClient d) reader) + of_nat (length (concat ys)))"
proof -
  let ?c = "hdfsClient d"
  let ?fp = "fullPath d p"
  let ?n = "rd_Size ?c reader"
  let ?v1 = "newFileWriter (Some h) ?fp ?n"
  let ?wd1 = "(snd (makeParentDir d ?fp wd))\<lparr>remote := s3\<rparr>"
  have W2: "Writer d p True wd = ((Some ?v1, None), ?wd1)"
    using o ap by (simp add: Writer_def Let_def handle_def)
  obtain n1 v2 where S1: "Size ?v1 = (n1, v2)" by (cases "Size ?v1") auto
  obtain n2 v3 where S2: "Size v2 = (n2, v3)" by (cases "Size v2") auto
  have n1: "n1 = folded ?n"
    using S1 Size_new [of "Some h" ?fp ?n] by simp
  have n2: "n2 = folded ?n"
    using S1 S2 n1 Size_twice [of ?v1] by simp
  have h3: "hdfsWriter v3 = Some h"
    using S1 S2 Size_handle [of ?v1] Size_handle [of v2] by (simp add: newFileWriter_def)
  have s3: "fst (Size v3) = folded ?n"
    using S1 S2 n2 Size_twice [of v2] by simp
  from write_chunks_Size [OF h3, of ?c ys ?wd1] obtain v4 wd5 where
    wc2: "write_chunks ?c v3 ys ?wd1 = Return (v4, wd5)"
    and s4: "fst (Size v4) = fst (Size v3) + of_nat (length (concat ys))" by blast
  obtain n3 v5 where S3: "Size v4 = (n3, v5)" by (cases "Size v4") auto
  have n3: "n3 = folded ?n + of_nat (length (concat ys))"
    using S3 s4 s3 by simp
  have n4: "fst (Size v5) = folded ?n + of_nat (length (concat ys))"
    using S3 n3 Size_twice [of v4] by simp
  show ?thesis
    unfolding second_session_def W2 prod.case option.case S1 S2 wc2 outcome.case S3 n4 n1 n2 n3
    by (rule refl)
qed

lemma sint_of_nat_small:
  "n < 2 ^ 63 \<Longrightarrow> sint (of_nat n :: int64) = int n"
proof -
  assume a: "n < 2 ^ 63"
  then have "int n < 2 ^ 63" by (metis of_nat_less_iff of_nat_numeral of_nat_power)
  then have "signed_take_bit 63 (int n) = int n"
    by (intro signed_take_bit_int_eq_self) simp_all
  then show ?thesis by (simp add: signed_of_nat)
qed

lemma folded_of_nat_small:
  "n < 2 ^ 63 \<Longrightarrow> folded (of_nat n :: int64) = of_nat n"
proof (cases "n = 0")
  case True
  then show ?thesis by (simp add: folded_def)
next
  case False
  assume "n < 2 ^ 63"
  then have "sint (of_nat n :: int64) = int n" by (rule sint_of_nat_small)
  with False show ?thesis by (simp add: folded_def word_sless_alt)
qed

text \<open>
  Claim C3. On any client: let a first session have written the slices \<open>xs\<close>, of \<open>N\<close>
  bytes in all, and closed, and let the client then open the object, report its size as
  \<open>N\<close> and open it for append. Then the session opened for append reads the size \<open>N\<close>
  before any write and, after writing the slices \<open>ys\<close> of \<open>M\<close> bytes in all, the size
  \<open>N + M\<close>; a second call of \<^verbatim>\<open>Size\<close> at either point reads the same value. The sizes
  are 64-bit values: \<open>N\<close> is one, and \<open>N + M\<close> is read as an integer when it is one too.
\<close>

theorem append_sizes_continuous:
  assumes "first_session d p a xs wd = Return wd3"
    and "cl_Open (hdfsClient d) (fullPath d p)
          (remote (snd (makeParentDir d (fullPath d p) wd3))) = (Inr reader, s2)"
    and "rd_Size (hdfsClient d) reader = of_nat (length (concat xs))"
    and "cl_Append (hdfsClient d) (fullPath d p) s2 = (Inr h, s3)"
    and "length (concat xs) < 2 ^ 63"
  shows "append_sizes d p a xs ys wd =
      Return (of_nat (length (concat xs)), of_nat (length (concat xs)),
              of_nat (length (concat xs) + length (concat ys)),
              of_nat (length (concat xs) + length (concat ys))) \<and>
    sint (of_nat (length (concat xs)) :: int64) = int (length (concat xs)) \<and>
    (length (concat xs) + length (concat ys) < 2 ^ 63 \<longrightarrow>
       sint (of_nat (length (concat xs) + length (concat ys)) :: int64)
         = int (length (concat xs) + length (concat ys)))"
proof -
  have "append_sizes d p a xs ys wd = second_session d p ys wd3"
    by (simp add: append_sizes_def assms(1))
  also have "\<dots> =
      Return (of_nat (length (concat xs)), of_nat (length (concat xs)),
              of_nat (length (concat xs) + length (concat ys)),
              of_nat (length (concat xs) + length (concat ys)))"
    using second_session_sizes [OF assms(2) assms(4), of ys] folded_of_nat_small [OF assms(5)]
    by (simp add: assms(3))
  finally show ?thesis
    using sint_of_nat_small [OF assms(5)]
      sint_of_nat_small [of "length (concat xs) + length (concat ys)"]
    by simp
qed

theorem append_sizes_continuous_witness:
  "first_session (mem_driver ''/r'') ''/a'' False [[1, 2], [3]] (mem_world [])
     = Return after_first_session \<and>
   cl_Open (hdfsClient (mem_driver ''/r'')) (fullPath (mem_driver ''/r'') ''/a'')
      (remote (snd (makeParentDir (mem_driver ''/r'') (fullPath (mem_driver ''/r'') ''/a'')
                      after_first_session)))
     = (Inr \<lparr>mr_path = ''/r/a'', mr_size = 3, mr_pos = 0\<rparr>, remote after_first_session) \<and>
   rd_Size (hdfsClient (mem_driver ''/r'')) \<lparr>mr_path = ''/r/a'', mr_size = 3, mr_pos = 0\<rparr>
     = of_nat (length (concat [[1, 2], [3 :: byte]])) \<and>
   cl_Append (hdfsClient (mem_driver ''/r'')) (fullPath (mem_driver ''/r'') ''/a'')
      (remote after_first_session)
     = (Inr ''/r/a'', remote after_first_session) \<and>
   length (concat [[1, 2], [3 :: byte]]) + length (concat [[4, 5 :: byte]]) < 2 ^ 63 \<and>
   append_sizes (mem_driver ''/r'') ''/a'' False [[1, 2], [3]] [[4, 5]] (mem_world [])
     = Return (3, 3, 5, 5) \<and>
   sint (3 :: int64) = 3 \<and> sint (5 :: int64) = 5"
  using append_sizes_continuous [of "mem_driver ''/r''" "''/a''" False "[[1, 2], [3]]"
      "mem_world []" after_first_session "\<lparr>mr_path = ''/r/a'', mr_size = 3, mr_pos = 0\<rparr>"
      "remote after_first_session" "''/r/a''" "remote after_first_session" "[[4, 5]]"]
  by (simp add: first_session_def after_first_session_def Writer_def Write_def Close_def
      Size_def newFileWriter_def handle_def mem_driver_def mem_world_def fullPath_def
      HasPrefix_def Clean_def Dir_def makeParentDir_def mem_MkdirAll_def mem_Open_def
      mem_Create_def mem_Append_def mem_Write_def mem_wClose_def log_if_def Let_def)

text \<open>On the in-memory client the first session leaves the bytes of \<open>xs\<close> in a fresh object.\<close>

lemma mem_first_session:
  assumes c: "hdfsClient d = mem_client"
    and nf: "\<not> fail_create (remote wd)" "\<not> fail_write (remote wd)"
    and fresh: "map_of (files (remote wd)) (fullPath d p) = None"
  shows "\<exists>wd3. first_session d p a xs wd = Return wd3 \<and>
    map_of (files (remote wd3)) (fullPath d p) = Some (concat xs)"
proof -
  let ?fp = "fullPath d p"
  let ?w1 = "newFileWriter (Some ?fp) ?fp 0"
  let ?wd1 = "wd\<lparr>remote := (remote wd)\<lparr>files := (?fp, []) # files (remote wd)\<rparr>\<rparr>"
  have W1: "Writer d p a wd = ((Some ?w1, None), ?wd1)"
    using mem_Writer_fresh [OF c nf(1) fresh] .
  have h1: "hdfsWriter ?w1 = Some ?fp" by (simp add: newFileWriter_def)
  from write_chunks_Size [OF h1, of mem_client xs ?wd1] obtain w2 wd2 where
    wc1: "write_chunks mem_client ?w1 xs ?wd1 = Return (w2, wd2)" by blast
  have g1: "\<not> fail_write (remote ?wd1)" using nf by simp
  have g2: "map_of (files (remote ?wd1)) ?fp = Some []" by simp
  have "map_of (files (remote wd2)) ?fp = Some ([] @ concat xs) \<and> \<not> fail_write (remote wd2)"
    by (rule mem_write_chunks_files [OF h1 g1 g2 wc1])
  then have f2: "map_of (files (remote wd2)) ?fp = Some (concat xs)" by simp
  have f3: "map_of (files (remote (snd (snd (Close mem_client w2 wd2))))) ?fp = Some (concat xs)"
    using mem_Close_files [of w2 wd2] f2 by simp
  have "first_session d p a xs wd = Return (snd (snd (Close mem_client w2 wd2)))"
    unfolding first_session_def c W1 prod.case option.case wc1 outcome.case by (rule refl)
  with f3 show ?thesis by blast
qed

text \<open>
  On the in-memory client with no failure switched on, for a fresh object and
  \<open>N + M < 2 ^ 63\<close>, the two sessions run to their end and read \<open>N\<close>, \<open>N\<close>, \<open>N + M\<close> and
  \<open>N + M\<close>.
\<close>

theorem mem_append_sizes:
  assumes c: "hdfsClient d = mem_client"
    and nf: "\<not> fail_create (remote wd)" "\<not> fail_write (remote wd)"
    and fresh: "map_of (files (remote wd)) (fullPath d p) = None"
    and small: "length (concat xs) + length (concat ys) < 2 ^ 63"
  shows "append_sizes d p a xs ys wd =
      Return (of_nat (length (concat xs)), of_nat (length (concat xs)),
              of_nat (length (concat xs) + length (concat ys)),
              of_nat (length (concat xs) + length (concat ys))) \<and>
    sint (of_nat (length (concat xs)) :: int64) = int (length (concat xs)) \<and>
    sint (of_nat (length (concat xs) + length (concat ys)) :: int64)
      = int (length (concat xs) + length (concat ys))"
proof -
  from small have n: "length (concat xs) < 2 ^ 63" by simp
  from mem_first_session [OF c nf fresh, of a xs] obtain wd3 where
    fs: "first_session d p a xs wd = Return wd3"
    and f3: "map_of (files (remote wd3)) (fullPath d p) = Some (concat xs)" by blast
  let ?r = "\<lparr>mr_path = fullPath d p, mr_size = of_nat (length (concat xs)), mr_pos = 0\<rparr>"
  have o: "cl_Open (hdfsClient d) (fullPath d p)
        (remote (snd (makeParentDir d (fullPath d p) wd3))) = (Inr ?r, remote wd3)"
    using f3 by (simp add: c mem_Open_def)
  have ap: "cl_Append (hdfsClient d) (fullPath d p) (remote wd3) = (Inr (fullPath d p), remote wd3)"
    using f3 by (simp add: c mem_Append_def)
  have "second_session d p ys wd3 =
      Return (of_nat (length (concat xs)), of_nat (length (concat xs)),
              of_nat (length (concat xs) + length (concat ys)),
              of_nat (length (concat xs) + length (concat ys)))"
    using second_session_sizes [OF o ap, of ys] folded_of_nat_small [OF n] by (simp add: c)
  then have "append_sizes d p a xs ys wd =
      Return (of_nat (length (concat xs)), of_nat (length (concat xs)),
              of_nat (length (concat xs) + length (concat ys)),
              of_nat (length (concat xs) + length (concat ys)))"
    by (simp add: append_sizes_def fs)
  then show ?thesis
    using sint_of_nat_small [OF n] sint_of_nat_small [OF small] by simp
qed

theorem mem_append_sizes_witness:
  "hdfsClient (mem_driver ''/r'') = mem_client \<and>
   \<not> fail_create (remote (mem_world [])) \<and> \<not> fail_write (remote (mem_world [])) \<and>
   map_of (files (remote (mem_world []))) (fullPath (mem_driver ''/r'') ''/a'') = None \<and>
   length (concat [[1, 2], [3 :: byte]]) + length (concat [[4, 5 :: byte]]) < 2 ^ 63 \<and>
   append_sizes (mem_driver ''/r'') ''/a'' False [[1, 2], [3]] [[4, 5]] (mem_world [])
     = Return (3, 3, 5, 5) \<and>
   sint (3 :: int64) = 3 \<and> sint (5 :: int64) = 5"
  using mem_append_sizes [of "mem_driver ''/r''" "mem_world []" "''/a''" "[[1, 2], [3]]"
      "[[4, 5]]" False]
  by (simp add: mem_driver_def mem_world_def)

end
